theory Spec2Isabelle
  imports Complex_Main
begin

section \<open>Data model\<close>

text \<open>
  The TypeScript interfaces \<^verbatim>\<open>Point\<close> and \<^verbatim>\<open>AnalysisResult\<close> and the union types
  \<^verbatim>\<open>AppState\<close> and \<^verbatim>\<open>CopyState\<close>. A JavaScript \<^verbatim>\<open>number\<close> is modelled by a
  \<^typ>\<open>real\<close>. The scoring engine is given twice: with exact arithmetic, and with a
  rounding function applied after every arithmetic operation, which for the rounding
  of IEEE doubles is the arithmetic of the program. Operations that leave the reals (a
  division by zero, the square root of a negative number) and the read of a property
  of \<^verbatim>\<open>undefined\<close> are explicit error values.
\<close>

record Point =
  x :: real
  y :: real

record AnalysisResult =
  score :: real
  center :: Point
  radius :: real

datatype AppState = IDLE | DRAWING | ANALYZING | RESULT

datatype CopyState = COPY_IDLE | COPIED

datatype error = TypeError | NotANumber

section \<open>Partial operations of the host language\<close>

definition andThen :: "error + 'a \<Rightarrow> ('a \<Rightarrow> error + 'b) \<Rightarrow> error + 'b" where
  "andThen r f = (case r of Inl e \<Rightarrow> Inl e | Inr v \<Rightarrow> f v)"

text \<open>\<^verbatim>\<open>a / b\<close>: for \<open>b = 0\<close> JavaScript yields an infinity or NaN.\<close>

definition divide_num :: "real \<Rightarrow> real \<Rightarrow> error + real" where
  "divide_num a b = (if b = 0 then Inl NotANumber else Inr (a / b))"

text \<open>\<^verbatim>\<open>Math.sqrt(v)\<close>: NaN for a negative argument.\<close>

definition Math_sqrt :: "real \<Rightarrow> error + real" where
  "Math_sqrt v = (if v < 0 then Inl NotANumber else Inr (sqrt v))"

text \<open>\<^verbatim>\<open>Math.hypot(a, b)\<close> and \<^verbatim>\<open>Math.pow(v, 2)\<close> are total.\<close>

definition Math_hypot :: "real \<Rightarrow> real \<Rightarrow> real" where
  "Math_hypot a b = sqrt (a\<^sup>2 + b\<^sup>2)"

definition Math_pow :: "real \<Rightarrow> nat \<Rightarrow> real" where
  "Math_pow v n = v ^ n"

text \<open>
  \<^verbatim>\<open>path[i]\<close> followed by a property read: out of range the element is
  \<^verbatim>\<open>undefined\<close> and the read of \<^verbatim>\<open>.x\<close> throws a TypeError.
\<close>

definition element :: "'a list \<Rightarrow> nat \<Rightarrow> error + 'a" where
  "element xs i = (if i < length xs then Inr (xs ! i) else Inl TypeError)"

section \<open>The scoring engine\<close>

text \<open>
  \<^verbatim>\<open>analyzeCircle\<close>, statement by statement. \<^verbatim>\<open>reduce\<close> with an initial value is
  \<^const>\<open>foldl\<close>; \<^verbatim>\<open>null\<close> is \<^const>\<open>None\<close>.
\<close>

definition analyzeCircle :: "Point list \<Rightarrow> error + AnalysisResult option" where
  "analyzeCircle path =
    (if length path < 10 then Inr None
     else
       let centroid = foldl (\<lambda>acc p. \<lparr>x = x acc + x p, y = y acc + y p\<rparr>) \<lparr>x = 0, y = 0\<rparr> path in
       andThen (divide_num (x centroid) (real (length path))) (\<lambda>centerX.
       andThen (divide_num (y centroid) (real (length path))) (\<lambda>centerY.
       let center = \<lparr>x = centerX, y = centerY\<rparr>;
           radii = map (\<lambda>p. Math_hypot (x p - centerX) (y p - centerY)) path in
       andThen (divide_num (foldl (\<lambda>sum r. sum + r) 0 radii) (real (length radii))) (\<lambda>meanRadius.
       if meanRadius = 0 then Inr None
       else
         andThen (divide_num (foldl (\<lambda>sum r. sum + Math_pow (r - meanRadius) 2) 0 radii)
                    (real (length radii))) (\<lambda>variance.
         andThen (Math_sqrt variance) (\<lambda>stdDev.
         andThen (divide_num stdDev meanRadius) (\<lambda>normalizedDeviation.
         let scoreFromShape = max 0 ((1 - normalizedDeviation * 3) * 100) in
         andThen (element path 0) (\<lambda>startPoint.
         andThen (element path (length path - 1)) (\<lambda>endPoint.
         let closingDistance =
               Math_hypot (x endPoint - x startPoint) (y endPoint - y startPoint) in
         andThen (divide_num closingDistance meanRadius) (\<lambda>ratio.
         let closingPenalty = min 1 ratio * 25;
             finalScore = max 0 (scoreFromShape - closingPenalty) in
         Inr (Some \<lparr>score = finalScore, center = center, radius = meanRadius\<rparr>)))))))))))"

section \<open>The quantities of the scoring algorithm, in closed form\<close>

text \<open>
  The notions the description of the algorithm uses: arithmetic mean, Euclidean
  distance, population variance. They are stated with \<^const>\<open>sum_list\<close> and are
  compared with the code above.
\<close>

definition mean :: "real list \<Rightarrow> real" where
  "mean vs = sum_list vs / real (length vs)"

definition distance :: "Point \<Rightarrow> Point \<Rightarrow> real" where
  "distance p q = sqrt ((x p - x q)\<^sup>2 + (y p - y q)\<^sup>2)"

definition centroid_of :: "Point list \<Rightarrow> Point" where
  "centroid_of path = \<lparr>x = mean (map x path), y = mean (map y path)\<rparr>"

definition radii_of :: "Point list \<Rightarrow> real list" where
  "radii_of path = map (\<lambda>p. distance p (centroid_of path)) path"

definition meanRadius_of :: "Point list \<Rightarrow> real" where
  "meanRadius_of path = mean (radii_of path)"

definition variance_of :: "Point list \<Rightarrow> real" where
  "variance_of path = mean (map (\<lambda>r. (r - meanRadius_of path)\<^sup>2) (radii_of path))"

definition stdDev_of :: "Point list \<Rightarrow> real" where
  "stdDev_of path = sqrt (variance_of path)"

definition normalizedDeviation_of :: "Point list \<Rightarrow> real" where
  "normalizedDeviation_of path = stdDev_of path / meanRadius_of path"

definition shapeScore_of :: "Point list \<Rightarrow> real" where
  "shapeScore_of path = max 0 ((1 - normalizedDeviation_of path * 3) * 100)"

definition closingDistance_of :: "Point list \<Rightarrow> real" where
  "closingDistance_of path = distance (last path) (hd path)"

definition closingPenalty_of :: "Point list \<Rightarrow> real" where
  "closingPenalty_of path = min 1 (closingDistance_of path / meanRadius_of path) * 25"

definition finalScore_of :: "Point list \<Rightarrow> real" where
  "finalScore_of path = max 0 (shapeScore_of path - closingPenalty_of path)"

section \<open>The scoring engine with rounding\<close>











text \<open>Translation of a path, with the additions rounded.\<close>

definition translate_rounded ::
  "(real \<Rightarrow> real) \<Rightarrow> real \<Rightarrow> real \<Rightarrow> Point list \<Rightarrow> Point list" where
  "translate_rounded rnd dx dy path = map (\<lambda>p. \<lparr>x = rnd (x p + dx), y = rnd (y p + dy)\<rparr>) path"

text \<open>Translation of every point of a path by the vector \<open>(dx, dy)\<close>.\<close>

definition translate :: "real \<Rightarrow> real \<Rightarrow> Point list \<Rightarrow> Point list" where
  "translate dx dy path = map (\<lambda>p. \<lparr>x = x p + dx, y = y p + dy\<rparr>) path"

text \<open>All points of a path lie on the circle with centre \<open>c\<close> and radius \<open>R\<close>.\<close>

definition on_circle :: "Point \<Rightarrow> real \<Rightarrow> Point list \<Rightarrow> bool" where
  "on_circle c R path = list_all (\<lambda>p. distance p c = R) path"

section \<open>The component state and its event handlers\<close>

text \<open>
  The state of the \<^verbatim>\<open>App\<close> component: the three \<^verbatim>\<open>useState\<close> cells that both
  versions of the component have, and the callbacks scheduled with \<^verbatim>\<open>setTimeout\<close>
  that have not fired yet, oldest first. Each callback is the closure of the path it
  captured. All callbacks have the same delay, so they fire in the order of scheduling.
\<close>

record Component =
  points :: "Point list"
  appState :: AppState
  result :: "AnalysisResult option"
  timers :: "Point list list"

text \<open>
  The later version of the component also has the \<^verbatim>\<open>copyStatus\<close> cell, and it
  registers its move and end handlers on \<^verbatim>\<open>window\<close> for the time of a gesture:
  \<open>listening\<close> says whether they are registered.
\<close>

record ComponentL = Component +
  copyStatus :: CopyState
  listening :: bool

text \<open>
  The callback of \<^verbatim>\<open>setTimeout\<close> in \<^verbatim>\<open>handleEndDrawing\<close>, the same in both
  versions. An exception in \<^verbatim>\<open>analyzeCircle\<close> would leave the state as it is.
\<close>

definition analysisCallback :: "Point list \<Rightarrow> 'a Component_scheme \<Rightarrow> 'a Component_scheme" where
  "analysisCallback currentPoints s =
     (case analyzeCircle currentPoints of
        Inl e \<Rightarrow> s
      | Inr analysis \<Rightarrow> s\<lparr>result := analysis, appState := RESULT\<rparr>)"

definition fireTimeout :: "'a Component_scheme \<Rightarrow> 'a Component_scheme" where
  "fireTimeout s =
     (case timers s of
        [] \<Rightarrow> s
      | currentPoints # rest \<Rightarrow> analysisCallback currentPoints (s\<lparr>timers := rest\<rparr>))"

subsection \<open>The component with listeners on the window\<close>

text \<open>
  The argument \<open>coords\<close> is the result of \<^verbatim>\<open>getCanvasCoordinates\<close>, which is
  \<^verbatim>\<open>undefined\<close> when the canvas is not mounted.
\<close>

definition handleDrawing :: "Point option \<Rightarrow> ComponentL \<Rightarrow> ComponentL" where
  "handleDrawing coords s =
     (case coords of
        Some c \<Rightarrow> s\<lparr>points := points s @ [c]\<rparr>
      | None \<Rightarrow> s)"

definition handleEndDrawing :: "ComponentL \<Rightarrow> ComponentL" where
  "handleEndDrawing s =
     (let s1 = s\<lparr>listening := False\<rparr>;
          currentPoints = points s1
      in if length currentPoints < 10
         then s1\<lparr>appState := IDLE, result := None, points := []\<rparr>
         else s1\<lparr>appState := ANALYZING, timers := timers s1 @ [currentPoints],
                 points := currentPoints\<rparr>)"

definition handleStartDrawing :: "Point option \<Rightarrow> ComponentL \<Rightarrow> ComponentL" where
  "handleStartDrawing coords s =
     (let s1 = s\<lparr>appState := DRAWING, result := None, copyStatus := COPY_IDLE\<rparr>;
          s2 = (case coords of Some c \<Rightarrow> s1\<lparr>points := [c]\<rparr> | None \<Rightarrow> s1)
      in s2\<lparr>listening := True\<rparr>)"

definition handleReset :: "ComponentL \<Rightarrow> ComponentL" where
  "handleReset s = s\<lparr>appState := IDLE, points := [], result := None, copyStatus := COPY_IDLE\<rparr>"

subsection \<open>The component with handlers on the canvas (\<^verbatim>\<open>App.tsx\<close>)\<close>

definition handleStartDrawing_tsx :: "Point option \<Rightarrow> Component \<Rightarrow> Component" where
  "handleStartDrawing_tsx coords s =
     (let s1 = s\<lparr>appState := DRAWING, result := None\<rparr>
      in case coords of Some c \<Rightarrow> s1\<lparr>points := [c]\<rparr> | None \<Rightarrow> s1)"

definition handleDrawing_tsx :: "Point option \<Rightarrow> Component \<Rightarrow> Component" where
  "handleDrawing_tsx coords s =
     (if appState s \<noteq> DRAWING then s
      else case coords of
             Some c \<Rightarrow> s\<lparr>points := points s @ [c]\<rparr>
           | None \<Rightarrow> s)"

definition handleEndDrawing_tsx :: "Component \<Rightarrow> Component" where
  "handleEndDrawing_tsx s =
     (if appState s \<noteq> DRAWING \<or> length (points s) < 10
      then s\<lparr>appState := IDLE, points := [], result := None\<rparr>
      else s\<lparr>appState := ANALYZING, timers := timers s @ [points s]\<rparr>)"

definition handleReset_tsx :: "Component \<Rightarrow> Component" where
  "handleReset_tsx s = s\<lparr>appState := IDLE, points := [], result := None\<rparr>"

subsection \<open>Events\<close>

text \<open>
  What reaches the handlers. The canvas always has its start handler. In the version
  with window listeners, move and end events reach a handler only while the listeners
  are registered; in \<^verbatim>\<open>App.tsx\<close> the canvas always has all its handlers. The reset
  button is rendered only in state \<^verbatim>\<open>RESULT\<close>.
\<close>

datatype Event =
    GestureStart "Point option"
  | GestureMove "Point option"
  | GestureEnd
  | TimeoutFires
  | ResetClick

definition initial :: ComponentL where
  "initial = \<lparr>points = [], appState = IDLE, result = None, timers = [],
              copyStatus = COPY_IDLE, listening = False\<rparr>"

definition initial_tsx :: Component where
  "initial_tsx = \<lparr>points = [], appState = IDLE, result = None, timers = []\<rparr>"

fun step :: "ComponentL \<Rightarrow> Event \<Rightarrow> ComponentL" where
  "step s (GestureStart coords) = handleStartDrawing coords s"
| "step s (GestureMove coords) = (if listening s then handleDrawing coords s else s)"
| "step s GestureEnd = (if listening s then handleEndDrawing s else s)"
| "step s TimeoutFires = fireTimeout s"
| "step s ResetClick = (if appState s = RESULT then handleReset s else s)"

fun step_tsx :: "Component \<Rightarrow> Event \<Rightarrow> Component" where
  "step_tsx s (GestureStart coords) = handleStartDrawing_tsx coords s"
| "step_tsx s (GestureMove coords) = handleDrawing_tsx coords s"
| "step_tsx s GestureEnd = handleEndDrawing_tsx s"
| "step_tsx s TimeoutFires = fireTimeout s"
| "step_tsx s ResetClick = (if appState s = RESULT then handleReset_tsx s else s)"

definition run :: "Event list \<Rightarrow> ComponentL" where
  "run events = foldl step initial events"

definition run_tsx :: "Event list \<Rightarrow> Component" where
  "run_tsx events = foldl step_tsx initial_tsx events"

text \<open>One gesture: press at the first point, move through the others, release.\<close>

definition gesture :: "Point list \<Rightarrow> Event list" where
  "gesture path =
     (case path of
        [] \<Rightarrow> []
      | p # ps \<Rightarrow> GestureStart (Some p) # map (\<lambda>q. GestureMove (Some q)) ps @ [GestureEnd])"

section \<open>Sample paths\<close>

abbreviation pt :: "real \<Rightarrow> real \<Rightarrow> Point" where
  "pt a b \<equiv> \<lparr>x = a, y = b\<rparr>"

text \<open>Fourteen points on the circle of radius 5 around the origin, closed.\<close>

definition circle14 :: "Point list" where
  "circle14 = [pt 5 0, pt 4 3, pt 3 4, pt 0 5, pt (-3) 4, pt (-4) 3, pt (-5) 0,
               pt (-5) 0, pt (-4) (-3), pt (-3) (-4), pt 0 (-5), pt 3 (-4), pt 4 (-3), pt 5 0]"

text \<open>Twelve points alternating between the radii 4 and 6, closed, mean radius 5.\<close>

definition wobble12 :: "Point list" where
  "wobble12 = [pt 4 0, pt 0 6, pt (-4) 0, pt 0 (-6), pt 4 0, pt 0 6, pt (-4) 0, pt 0 (-6),
               pt 0 6, pt (-4) 0, pt 0 (-6), pt 4 0]"

text \<open>Ten times the same point.\<close>

definition dot10 :: "Point list" where
  "dot10 = [pt 1 2, pt 1 2, pt 1 2, pt 1 2, pt 1 2, pt 1 2, pt 1 2, pt 1 2, pt 1 2, pt 1 2]"

text \<open>Nine short of ten: a start and eight moves.\<close>

definition short9 :: "Point list" where
  "short9 = [pt 0 0, pt 1 0, pt 2 0, pt 3 0, pt 4 0, pt 5 0, pt 6 0, pt 7 0, pt 8 0]"

text \<open>
  The six corners of the regular hexagon of radius 2, visited twice: the path ends one
  corner before its start, at distance 2 from it.
\<close>

definition hexagon12 :: "Point list" where
  "hexagon12 = [pt 2 0, pt 1 (sqrt 3), pt (-1) (sqrt 3), pt (-2) 0, pt (-1) (- sqrt 3),
                pt 1 (- sqrt 3),
                pt 2 0, pt 1 (sqrt 3), pt (-1) (sqrt 3), pt (-2) 0, pt (-1) (- sqrt 3),
                pt 1 (- sqrt 3)]"

text \<open>
  Nine samples at one point of the circle of radius 2 around the origin and a tenth
  sample a sixth of the circle further.
\<close>

definition dwell10 :: "Point list" where
  "dwell10 = [pt 2 0, pt 2 0, pt 2 0, pt 2 0, pt 2 0, pt 2 0, pt 2 0, pt 2 0, pt 2 0,
               pt 1 (sqrt 3)]"




section \<open>The code computes the closed forms\<close>

lemma foldl_point_sum:
  "foldl (\<lambda>acc p. \<lparr>x = x acc + x p, y = y acc + y p\<rparr>) a ps =
     \<lparr>x = x a + sum_list (map x ps), y = y a + sum_list (map y ps)\<rparr>"
  by (induction ps arbitrary: a) (simp_all add: add.assoc)

lemma foldl_plus_sum: "foldl (\<lambda>sum r. sum + r) (a::real) rs = a + sum_list rs"
  by (induction rs arbitrary: a) (simp_all add: add.assoc)

lemma foldl_pow_sum:
  "foldl (\<lambda>sum r. sum + Math_pow (r - m) 2) (a::real) rs =
     a + sum_list (map (\<lambda>r. (r - m)\<^sup>2) rs)"
  by (induction rs arbitrary: a) (simp_all add: add.assoc Math_pow_def)

lemma sum_list_nonneg_real: "(\<And>v. v \<in> set vs \<Longrightarrow> 0 \<le> v) \<Longrightarrow> 0 \<le> sum_list (vs::real list)"
  by (induction vs) auto

lemma radii_nonneg: "r \<in> set (radii_of path) \<Longrightarrow> 0 \<le> r"
  by (auto simp: radii_of_def distance_def)

lemma andThen_Inr: "andThen (Inr v) f = f v"
  by (simp add: andThen_def)

lemma meanRadius_nonneg: "0 \<le> meanRadius_of path"
proof -
  have "0 \<le> sum_list (radii_of path)"
    by (rule sum_list_nonneg_real) (rule radii_nonneg)
  then show ?thesis by (simp add: meanRadius_of_def mean_def)
qed

lemma variance_nonneg: "0 \<le> variance_of path"
proof -
  have "0 \<le> sum_list (map (\<lambda>r. (r - meanRadius_of path)\<^sup>2) (radii_of path))"
    by (rule sum_list_nonneg_real) auto
  then show ?thesis by (simp add: variance_of_def mean_def)
qed

lemma stdDev_nonneg: "0 \<le> stdDev_of path"
  by (simp add: stdDev_of_def variance_nonneg)

lemma analyzeCircle_short: "length path < 10 \<Longrightarrow> analyzeCircle path = Inr None"
  by (simp add: analyzeCircle_def)

lemma analyzeCircle_long:
  assumes len: "\<not> length path < 10"
  shows "analyzeCircle path =
     (if meanRadius_of path = 0 then Inr None
      else Inr (Some \<lparr>score = finalScore_of path, center = centroid_of path,
                       radius = meanRadius_of path\<rparr>))"
proof -
  from len have n0: "real (length path) \<noteq> 0" and ne: "path \<noteq> []" by auto
  have c: "foldl (\<lambda>acc p. \<lparr>x = x acc + x p, y = y acc + y p\<rparr>) \<lparr>x = 0, y = 0\<rparr> path =
             \<lparr>x = sum_list (map x path), y = sum_list (map y path)\<rparr>"
    by (simp add: foldl_point_sum)
  have dx: "divide_num (sum_list (map x path)) (real (length path)) = Inr (x (centroid_of path))"
    and dy: "divide_num (sum_list (map y path)) (real (length path)) = Inr (y (centroid_of path))"
    using n0 by (simp_all add: divide_num_def centroid_of_def mean_def)
  have ce: "\<lparr>x = x (centroid_of path), y = y (centroid_of path)\<rparr> = centroid_of path"
    by simp
  have rad: "map (\<lambda>p. Math_hypot (x p - x (centroid_of path)) (y p - y (centroid_of path))) path
               = radii_of path"
    by (simp add: radii_of_def distance_def Math_hypot_def)
  have lr: "length (radii_of path) = length path" by (simp add: radii_of_def)
  have f1: "foldl (\<lambda>sum r. sum + r) 0 (radii_of path) = sum_list (radii_of path)"
    by (simp add: foldl_plus_sum)
  have dm: "divide_num (sum_list (radii_of path)) (real (length (radii_of path)))
              = Inr (meanRadius_of path)"
    using n0 by (simp add: divide_num_def meanRadius_of_def mean_def lr)
  have f2: "foldl (\<lambda>sum r. sum + Math_pow (r - meanRadius_of path) 2) 0 (radii_of path)
              = sum_list (map (\<lambda>r. (r - meanRadius_of path)\<^sup>2) (radii_of path))"
    by (simp add: foldl_pow_sum)
  have dv: "divide_num (sum_list (map (\<lambda>r. (r - meanRadius_of path)\<^sup>2) (radii_of path)))
              (real (length (radii_of path))) = Inr (variance_of path)"
    using n0 by (simp add: divide_num_def variance_of_def mean_def lr)
  have sq: "Math_sqrt (variance_of path) = Inr (stdDev_of path)"
    using variance_nonneg [of path] by (simp add: Math_sqrt_def stdDev_of_def)
  have e0: "element path 0 = Inr (hd path)"
    using ne by (simp add: element_def hd_conv_nth)
  have e1: "element path (length path - 1) = Inr (last path)"
    using ne by (simp add: element_def last_conv_nth)
  have cd: "Math_hypot (x (last path) - x (hd path)) (y (last path) - y (hd path))
              = closingDistance_of path"
    by (simp add: closingDistance_of_def distance_def Math_hypot_def)
  show ?thesis
  proof (cases "meanRadius_of path = 0")
    case True
    have "analyzeCircle path = Inr None"
      unfolding analyzeCircle_def Let_def c Point.select_convs dx dy andThen_Inr rad f1 dm
      using len True by simp
    with True show ?thesis by simp
  next
    case False
    have dn: "divide_num (stdDev_of path) (meanRadius_of path) = Inr (normalizedDeviation_of path)"
      and dr: "divide_num (closingDistance_of path) (meanRadius_of path)
                 = Inr (closingDistance_of path / meanRadius_of path)"
      using False by (simp_all add: divide_num_def normalizedDeviation_of_def)
    have "analyzeCircle path =
            Inr (Some \<lparr>score = max 0 (max 0 ((1 - normalizedDeviation_of path * 3) * 100)
                          - min 1 (closingDistance_of path / meanRadius_of path) * 25),
                       center = centroid_of path, radius = meanRadius_of path\<rparr>)"
      unfolding analyzeCircle_def Let_def c Point.select_convs dx dy andThen_Inr rad f1 dm
        f2 dv sq dn e0 e1 cd dr ce
      using len False by simp
    with False show ?thesis
      by (simp add: finalScore_of_def shapeScore_of_def closingPenalty_of_def)
  qed
qed

lemma analyzeCircle_closed_form:
  "analyzeCircle path =
     Inr (if length path < 10 \<or> meanRadius_of path = 0 then None
          else Some \<lparr>score = finalScore_of path, center = centroid_of path,
                     radius = meanRadius_of path\<rparr>)"
  by (cases "length path < 10") (simp_all add: analyzeCircle_short analyzeCircle_long)

section \<open>The sample paths, evaluated\<close>

lemma sqrt_25: "sqrt 25 = 5"
  by (rule real_sqrt_unique) simp_all

lemma centroid_circle14: "centroid_of circle14 = pt 0 0"
  by (simp add: centroid_of_def mean_def circle14_def)

lemma radii_circle14: "radii_of circle14 = [5, 5, 5, 5, 5, 5, 5, 5, 5, 5, 5, 5, 5, 5]"
  by (simp add: radii_of_def centroid_circle14 distance_def) (simp add: circle14_def sqrt_25)

lemma meanRadius_circle14: "meanRadius_of circle14 = 5"
  by (simp add: meanRadius_of_def mean_def radii_circle14)

lemma variance_circle14: "variance_of circle14 = 0"
  by (simp add: variance_of_def mean_def radii_circle14 meanRadius_circle14)

lemma closing_circle14: "closingDistance_of circle14 = 0"
  by (simp add: closingDistance_of_def distance_def circle14_def)

lemma finalScore_circle14: "finalScore_of circle14 = 100"
  by (simp add: finalScore_of_def shapeScore_of_def closingPenalty_of_def
      normalizedDeviation_of_def stdDev_of_def variance_circle14 closing_circle14
      meanRadius_circle14)

lemma analyzeCircle_circle14:
  "analyzeCircle circle14 = Inr (Some \<lparr>score = 100, center = pt 0 0, radius = 5\<rparr>)"
  by (simp add: analyzeCircle_closed_form meanRadius_circle14 finalScore_circle14
      centroid_circle14) (simp add: circle14_def)

lemma run_circle14:
  "run (gesture circle14) =
     \<lparr>points = circle14, appState = ANALYZING, result = None, timers = [circle14],
      copyStatus = COPY_IDLE, listening = False\<rparr>"
  by (simp add: run_def gesture_def circle14_def initial_def handleStartDrawing_def
      handleDrawing_def handleEndDrawing_def Let_def)

lemma run_tsx_circle14:
  "run_tsx (gesture circle14) =
     \<lparr>points = circle14, appState = ANALYZING, result = None, timers = [circle14]\<rparr>"
  by (simp add: run_tsx_def gesture_def circle14_def initial_tsx_def handleStartDrawing_tsx_def
      handleDrawing_tsx_def handleEndDrawing_tsx_def Let_def)

section \<open>The result of the scoring engine\<close>

text \<open>
  Claim C1. For a path of at least 10 points whose mean radius is not zero,
  \<^const>\<open>analyzeCircle\<close> returns a result: its centre is the arithmetic mean of the
  points' coordinates, its radius is the arithmetic mean of the Euclidean distances of
  the points from that centre, and its score is
  \<open>max 0 (max 0 ((1 - 3 * (stdDev / meanRadius)) * 100) - min 1 (closingDistance / meanRadius) * 25)\<close>
  with \<open>stdDev\<close> the square root of the population variance of the radii and
  \<open>closingDistance\<close> the distance between the first and the last point.
\<close>

theorem analyzeCircle_result:
  "let n = real (length path);
       c = \<lparr>x = sum_list (map x path) / n, y = sum_list (map y path) / n\<rparr>;
       radii = map (\<lambda>p. sqrt ((x p - x c)\<^sup>2 + (y p - y c)\<^sup>2)) path;
       meanRadius = sum_list radii / n;
       stdDev = sqrt (sum_list (map (\<lambda>r. (r - meanRadius)\<^sup>2) radii) / n);
       closingDistance =
         sqrt ((x (last path) - x (hd path))\<^sup>2 + (y (last path) - y (hd path))\<^sup>2)
   in 10 \<le> length path \<and> meanRadius \<noteq> 0 \<longrightarrow>
      analyzeCircle path =
        Inr (Some \<lparr>score = max 0 (max 0 ((1 - 3 * (stdDev / meanRadius)) * 100)
                                 - min 1 (closingDistance / meanRadius) * 25),
                   center = c, radius = meanRadius\<rparr>)"
proof -
  have lr: "length (radii_of path) = length path" by (simp add: radii_of_def)
  have c: "\<lparr>x = sum_list (map x path) / real (length path),
            y = sum_list (map y path) / real (length path)\<rparr> = centroid_of path"
    by (simp add: centroid_of_def mean_def)
  have r: "map (\<lambda>p. sqrt ((x p - x (centroid_of path))\<^sup>2 + (y p - y (centroid_of path))\<^sup>2)) path
             = radii_of path"
    by (simp add: radii_of_def distance_def)
  have m: "sum_list (radii_of path) / real (length path) = meanRadius_of path"
    by (simp add: meanRadius_of_def mean_def lr)
  have sd: "sqrt (sum_list (map (\<lambda>r. (r - meanRadius_of path)\<^sup>2) (radii_of path))
               / real (length path)) = stdDev_of path"
    by (simp add: stdDev_of_def variance_of_def mean_def lr)
  have cl: "sqrt ((x (last path) - x (hd path))\<^sup>2 + (y (last path) - y (hd path))\<^sup>2)
              = closingDistance_of path"
    by (simp add: closingDistance_of_def distance_def)
  have sc: "max 0 (max 0 ((1 - 3 * (stdDev_of path / meanRadius_of path)) * 100)
                   - min 1 (closingDistance_of path / meanRadius_of path) * 25)
              = finalScore_of path"
    by (simp add: finalScore_of_def shapeScore_of_def closingPenalty_of_def
        normalizedDeviation_of_def mult.commute)
  show ?thesis
    unfolding Let_def c r m sd cl sc
    by (simp add: analyzeCircle_closed_form)
qed

theorem analyzeCircle_result_witness:
  "analyzeCircle circle14 = Inr (Some \<lparr>score = 100, center = pt 0 0, radius = 5\<rparr>)"
proof -
  have "10 \<le> length circle14" by (simp add: circle14_def)
  with analyzeCircle_result [of circle14] show ?thesis
    by (simp add: Let_def) (simp add: circle14_def sqrt_25)
qed

lemma Point_eq_iff: "(p::Point) = q \<longleftrightarrow> x p = x q \<and> y p = y q"
  by auto

lemma distance_zero_iff: "distance p q = 0 \<longleftrightarrow> p = q"
  by (simp add: distance_def Point_eq_iff sum_power2_eq_zero_iff real_sqrt_eq_zero_cancel_iff)

lemma sum_list_radii_zero_iff:
  "sum_list (radii_of path) = 0 \<longleftrightarrow> (\<forall>p\<in>set path. p = centroid_of path)"
proof -
  have "sum_list (radii_of path) = 0 \<longleftrightarrow> (\<forall>r\<in>set (radii_of path). r = 0)"
    by (rule sum_list_nonneg_eq_0_iff) (simp add: radii_nonneg)
  also have "\<dots> \<longleftrightarrow> (\<forall>p\<in>set path. p = centroid_of path)"
    by (simp add: radii_of_def distance_zero_iff)
  finally show ?thesis .
qed

lemma meanRadius_zero_iff:
  "meanRadius_of path = 0 \<longleftrightarrow> (\<forall>p\<in>set path. p = centroid_of path)"
proof (cases "path = []")
  case True
  then show ?thesis by (simp add: meanRadius_of_def mean_def radii_of_def)
next
  case False
  then have "meanRadius_of path = 0 \<longleftrightarrow> sum_list (radii_of path) = 0"
    by (simp add: meanRadius_of_def mean_def radii_of_def)
  then show ?thesis by (simp add: sum_list_radii_zero_iff)
qed

lemma centroid_dot10: "centroid_of dot10 = pt 1 2"
  by (simp add: centroid_of_def mean_def dot10_def)

lemma meanRadius_pos: "meanRadius_of path \<noteq> 0 \<Longrightarrow> 0 < meanRadius_of path"
  using meanRadius_nonneg [of path] by simp

lemma closingDistance_nonneg: "0 \<le> closingDistance_of path"
  by (simp add: closingDistance_of_def distance_def)

lemma shapeScore_bounds:
  assumes "meanRadius_of path \<noteq> 0"
  shows "0 \<le> shapeScore_of path" and "shapeScore_of path \<le> 100"
proof -
  show "0 \<le> shapeScore_of path" by (simp add: shapeScore_of_def)
  have "0 \<le> normalizedDeviation_of path"
    unfolding normalizedDeviation_of_def
    by (rule divide_nonneg_nonneg) (rule stdDev_nonneg, rule meanRadius_nonneg)
  then show "shapeScore_of path \<le> 100" by (simp add: shapeScore_of_def)
qed

lemma closingPenalty_bounds: "0 \<le> closingPenalty_of path" "closingPenalty_of path \<le> 25"
proof -
  have "0 \<le> closingDistance_of path / meanRadius_of path"
    by (rule divide_nonneg_nonneg) (rule closingDistance_nonneg, rule meanRadius_nonneg)
  then show "0 \<le> closingPenalty_of path" by (simp add: closingPenalty_of_def)
  show "closingPenalty_of path \<le> 25" by (simp add: closingPenalty_of_def)
qed

lemma finalScore_bounds:
  assumes "meanRadius_of path \<noteq> 0"
  shows "0 \<le> finalScore_of path \<and> finalScore_of path \<le> 100"
  using shapeScore_bounds [OF assms] closingPenalty_bounds [of path]
  by (simp add: finalScore_of_def)

text \<open>
  Claim C3. Every score that \<^const>\<open>analyzeCircle\<close> returns lies between 0 and 100.
\<close>

theorem score_in_range:
  assumes "analyzeCircle path = Inr (Some r)"
  shows "0 \<le> score r \<and> score r \<le> 100"
proof -
  from assms have nz: "meanRadius_of path \<noteq> 0" and "score r = finalScore_of path"
    by (auto simp add: analyzeCircle_closed_form split: if_splits)
  with finalScore_bounds [OF nz] show ?thesis by simp
qed

theorem score_in_range_witness:
  "\<exists>r. analyzeCircle circle14 = Inr (Some r) \<and> 0 \<le> score r \<and> score r \<le> 100"
  using score_in_range [OF analyzeCircle_circle14] analyzeCircle_circle14 by blast

text \<open>
  Claim C10. \<^const>\<open>analyzeCircle\<close> is total: on no path does an element access, a
  division or the square root fail. The outcome is null (for a path of fewer than 10
  points or of mean radius zero) or a result with a score between 0 and 100 and a
  positive radius.
\<close>

theorem analyzeCircle_total:
  "\<exists>res. analyzeCircle path = Inr res
         \<and> (case res of
               None \<Rightarrow> length path < 10 \<or> meanRadius_of path = 0
             | Some r \<Rightarrow> 0 \<le> score r \<and> score r \<le> 100 \<and> 0 < radius r)"
proof (cases "length path < 10 \<or> meanRadius_of path = 0")
  case True
  then show ?thesis by (simp add: analyzeCircle_closed_form)
next
  case False
  then have nz: "meanRadius_of path \<noteq> 0" by simp
  from False finalScore_bounds [OF nz] meanRadius_pos [OF nz] show ?thesis
    by (simp add: analyzeCircle_closed_form)
qed

theorem analyzeCircle_total_witness:
  "\<exists>res. analyzeCircle circle14 = Inr res \<and> res \<noteq> None
         \<and> (\<exists>res'. analyzeCircle short9 = Inr res' \<and> res' = None)"
  using analyzeCircle_total [of circle14] analyzeCircle_total [of short9]
  by (auto simp add: analyzeCircle_circle14 analyzeCircle_short short9_def)

section \<open>Translation and monotonicity\<close>









text \<open>
  Claim C9. Of two paths with the same mean radius and the same closing distance, the
  one with the larger normalized deviation does not get the larger score.
\<close>

theorem score_antitone_in_deviation:
  assumes "analyzeCircle p = Inr (Some rp)" and "analyzeCircle q = Inr (Some rq)"
    and "radius rp = radius rq"
    and "closingDistance_of p = closingDistance_of q"
    and "normalizedDeviation_of p \<le> normalizedDeviation_of q"
  shows "score rq \<le> score rp"
proof -
  from assms(1) have p: "score rp = finalScore_of p" "radius rp = meanRadius_of p"
    by (auto simp add: analyzeCircle_closed_form split: if_splits)
  from assms(2) have q: "score rq = finalScore_of q" "radius rq = meanRadius_of q"
    by (auto simp add: analyzeCircle_closed_form split: if_splits)
  from assms(3) p q have m: "meanRadius_of p = meanRadius_of q" by simp
  have pen: "closingPenalty_of p = closingPenalty_of q"
    by (simp add: closingPenalty_of_def m assms(4))
  have "shapeScore_of q \<le> shapeScore_of p"
    using assms(5) by (simp add: shapeScore_of_def max_def)
  then have "finalScore_of q \<le> finalScore_of p"
    by (simp add: finalScore_of_def pen max_def)
  with p q show ?thesis by simp
qed

lemma sqrt_16: "sqrt 16 = 4"
  by (rule real_sqrt_unique) simp_all

lemma sqrt_36: "sqrt 36 = 6"
  by (rule real_sqrt_unique) simp_all

lemma centroid_wobble12: "centroid_of wobble12 = pt 0 0"
  by (simp add: centroid_of_def mean_def wobble12_def)

lemma radii_wobble12: "radii_of wobble12 = [4, 6, 4, 6, 4, 6, 4, 6, 6, 4, 6, 4]"
  by (simp add: radii_of_def centroid_wobble12 distance_def) (simp add: wobble12_def sqrt_16 sqrt_36)

lemma meanRadius_wobble12: "meanRadius_of wobble12 = 5"
  by (simp add: meanRadius_of_def mean_def radii_wobble12)

lemma variance_wobble12: "variance_of wobble12 = 1"
  by (simp add: variance_of_def mean_def radii_wobble12 meanRadius_wobble12)

lemma closing_wobble12: "closingDistance_of wobble12 = 0"
  by (simp add: closingDistance_of_def distance_def wobble12_def)

lemma normalizedDeviation_wobble12: "normalizedDeviation_of wobble12 = 1 / 5"
  by (simp add: normalizedDeviation_of_def stdDev_of_def variance_wobble12 meanRadius_wobble12)

lemma normalizedDeviation_circle14: "normalizedDeviation_of circle14 = 0"
  by (simp add: normalizedDeviation_of_def stdDev_of_def variance_circle14)

lemma finalScore_wobble12: "finalScore_of wobble12 = 40"
  by (simp add: finalScore_of_def shapeScore_of_def closingPenalty_of_def
      normalizedDeviation_wobble12 closing_wobble12 meanRadius_wobble12)

lemma analyzeCircle_wobble12:
  "analyzeCircle wobble12 = Inr (Some \<lparr>score = 40, center = pt 0 0, radius = 5\<rparr>)"
  by (simp add: analyzeCircle_closed_form meanRadius_wobble12 finalScore_wobble12
      centroid_wobble12) (simp add: wobble12_def)

theorem score_antitone_in_deviation_witness:
  "analyzeCircle circle14 = Inr (Some \<lparr>score = 100, center = pt 0 0, radius = 5\<rparr>)
   \<and> analyzeCircle wobble12 = Inr (Some \<lparr>score = 40, center = pt 0 0, radius = 5\<rparr>)
   \<and> closingDistance_of circle14 = closingDistance_of wobble12
   \<and> normalizedDeviation_of circle14 \<le> normalizedDeviation_of wobble12
   \<and> score \<lparr>score = 40, center = pt 0 0, radius = 5\<rparr>
       \<le> score \<lparr>score = 100, center = pt 0 0, radius = 5\<rparr>"
proof -
  have r: "radius \<lparr>score = 100, center = pt 0 0, radius = 5\<rparr>
             = radius \<lparr>score = 40, center = pt 0 0, radius = 5\<rparr>" by simp
  have c: "closingDistance_of circle14 = closingDistance_of wobble12"
    by (simp add: closing_circle14 closing_wobble12)
  have d: "normalizedDeviation_of circle14 \<le> normalizedDeviation_of wobble12"
    by (simp add: normalizedDeviation_circle14 normalizedDeviation_wobble12)
  from score_antitone_in_deviation [OF analyzeCircle_circle14 analyzeCircle_wobble12 r c d]
    analyzeCircle_circle14 analyzeCircle_wobble12 c d
  show ?thesis by blast
qed


section \<open>The engine in double arithmetic\<close>






































lemma translate_rounded_exact: "translate_rounded (\<lambda>v. v) dx dy path = translate dx dy path"
  by (simp add: translate_rounded_def translate_def)










section \<open>A gap of one radius\<close>

lemma sum_list_square_shift:
  "sum_list (map (\<lambda>p. (f p - a)\<^sup>2) ps) =
     sum_list (map (\<lambda>p. (f p)\<^sup>2) ps) - 2 * a * sum_list (map f ps)
       + real (length ps) * (a::real)\<^sup>2"
  by (induction ps) (simp_all add: algebra_simps power2_eq_square)

lemma mean_minimises_squares:
  assumes "ps \<noteq> []"
  shows "sum_list (map (\<lambda>p. (f p - mean (map f ps))\<^sup>2) ps)
           \<le> sum_list (map (\<lambda>p. (f p - a)\<^sup>2) ps)"
proof -
  let ?n = "real (length ps)" and ?m = "mean (map f ps)"
  from assms have n: "0 < ?n" by simp
  then have s: "sum_list (map f ps) = ?n * ?m" by (simp add: mean_def)
  have "sum_list (map (\<lambda>p. (f p - a)\<^sup>2) ps) - sum_list (map (\<lambda>p. (f p - ?m)\<^sup>2) ps)
          = ?n * (?m - a)\<^sup>2"
    unfolding sum_list_square_shift [of f a] sum_list_square_shift [of f ?m] s
    by (simp add: algebra_simps power2_eq_square)
  moreover have "0 \<le> ?n * (?m - a)\<^sup>2" using n by simp
  ultimately show ?thesis by linarith
qed

lemma sum_list_square_bound:
  "(sum_list rs)\<^sup>2 \<le> real (length rs) * sum_list (map (\<lambda>r. r\<^sup>2) (rs::real list))"
proof (cases "rs = []")
  case True
  then show ?thesis by simp
next
  case False
  define n where "n = real (length rs)"
  define m where "m = sum_list rs / n"
  from False have n: "0 < n" by (simp add: n_def)
  then have s: "sum_list rs = n * m" by (simp add: m_def)
  have "0 \<le> sum_list (map (\<lambda>r. (r - m)\<^sup>2) rs)"
    by (rule sum_list_nonneg_real) auto
  also have "\<dots> = sum_list (map (\<lambda>r. r\<^sup>2) rs) - 2 * m * sum_list rs + n * m\<^sup>2"
    using sum_list_square_shift [of "\<lambda>r. r" m rs] by (simp add: n_def)
  also have "\<dots> = sum_list (map (\<lambda>r. r\<^sup>2) rs) - n * m\<^sup>2"
    unfolding s by (simp add: algebra_simps power2_eq_square)
  finally have "n * m\<^sup>2 \<le> sum_list (map (\<lambda>r. r\<^sup>2) rs)" by simp
  then have "n * (n * m\<^sup>2) \<le> n * sum_list (map (\<lambda>r. r\<^sup>2) rs)"
    using n by simp
  moreover have "n * (n * m\<^sup>2) = (sum_list rs)\<^sup>2"
    unfolding s by (simp add: power2_eq_square)
  ultimately show ?thesis by (simp add: n_def)
qed

lemma sum_list_map_plus:
  "sum_list (map (\<lambda>p. f p + g p) ps) = sum_list (map f ps) + sum_list (map g ps :: real list)"
  by (induction ps) simp_all

lemma sum_list_map_const: "(\<And>p. p \<in> set ps \<Longrightarrow> f p = (k::real))
   \<Longrightarrow> sum_list (map f ps) = real (length ps) * k"
  by (induction ps) (simp_all add: algebra_simps)

lemma on_circle_iff: "on_circle c R path \<longleftrightarrow> (\<forall>p\<in>set path. distance p c = R)"
  by (simp add: on_circle_def list_all_iff)

lemma distance_square: "(distance p q)\<^sup>2 = (x p - x q)\<^sup>2 + (y p - y q)\<^sup>2"
  by (simp add: distance_def)

lemma sum_radii_squares_le:
  assumes "path \<noteq> []" and "on_circle c R path"
  shows "sum_list (map (\<lambda>r. r\<^sup>2) (radii_of path)) \<le> real (length path) * R\<^sup>2"
proof -
  have "sum_list (map (\<lambda>r. r\<^sup>2) (radii_of path))
          = sum_list (map (\<lambda>p. (x p - mean (map x path))\<^sup>2) path)
            + sum_list (map (\<lambda>p. (y p - mean (map y path))\<^sup>2) path)"
    by (simp add: radii_of_def comp_def distance_square centroid_of_def sum_list_map_plus)
  also have "\<dots> \<le> sum_list (map (\<lambda>p. (x p - x c)\<^sup>2) path)
                    + sum_list (map (\<lambda>p. (y p - y c)\<^sup>2) path)"
    by (intro add_mono mean_minimises_squares assms(1))
  also have "\<dots> = sum_list (map (\<lambda>p. (distance p c)\<^sup>2) path)"
    by (simp add: distance_square sum_list_map_plus)
  also have "\<dots> = real (length path) * R\<^sup>2"
    using assms(2) by (intro sum_list_map_const) (simp add: on_circle_iff)
  finally show ?thesis .
qed

lemma meanRadius_le_radius:
  assumes "path \<noteq> []" and "on_circle c R path" and "0 \<le> R"
  shows "meanRadius_of path \<le> R"
proof -
  let ?n = "real (length path)"
  from assms(1) have n: "0 < ?n" by simp
  have lr: "length (radii_of path) = length path" by (simp add: radii_of_def)
  have "(sum_list (radii_of path))\<^sup>2 \<le> ?n * sum_list (map (\<lambda>r. r\<^sup>2) (radii_of path))"
    using sum_list_square_bound [of "radii_of path"] by (simp add: lr)
  also have "\<dots> \<le> ?n * (?n * R\<^sup>2)"
    using sum_radii_squares_le [OF assms(1,2)] n by simp
  also have "\<dots> = (?n * R)\<^sup>2" by (simp add: power2_eq_square)
  finally have "(sum_list (radii_of path))\<^sup>2 \<le> (?n * R)\<^sup>2" .
  moreover have "0 \<le> ?n * R" using n assms(3) by simp
  ultimately have "sum_list (radii_of path) \<le> ?n * R" by (rule power2_le_imp_le)
  then show ?thesis using n by (simp add: meanRadius_of_def mean_def lr pos_divide_le_eq mult.commute)
qed

lemma closingDistance_zero_if_meanRadius_zero:
  assumes "path \<noteq> []" and "meanRadius_of path = 0"
  shows "closingDistance_of path = 0"
proof -
  from assms(2) have "\<forall>p\<in>set path. p = centroid_of path" by (simp add: meanRadius_zero_iff)
  with assms(1) have "last path = centroid_of path" "hd path = centroid_of path" by simp_all
  then show ?thesis by (simp add: closingDistance_of_def distance_def)
qed

text \<open>
  Claim C8, amended. For a path of at least 10 points that lie on a circle of radius
  \<open>R\<close> (with any centre) and whose first and last point are at distance \<open>R\<close>, the
  closing penalty is exactly 25: the mean radius is at most \<open>R\<close>, so the ratio of gap
  to mean radius is capped at 1. The final score is \<open>max 0 (shapeScore - 25)\<close>, which
  is \<open>shapeScore - 25\<close> when the shape score is at least 25.
\<close>

theorem gap_of_one_radius:
  assumes "10 \<le> length path" and "0 < R" and "on_circle c R path"
    and "closingDistance_of path = R"
  shows "\<exists>r. analyzeCircle path = Inr (Some r)
              \<and> closingPenalty_of path = 25
              \<and> score r = max 0 (shapeScore_of path - 25)"
proof -
  from assms(1) have ne: "path \<noteq> []" by auto
  have nz: "meanRadius_of path \<noteq> 0"
    using closingDistance_zero_if_meanRadius_zero [OF ne] assms(2,4) by auto
  then have pos: "0 < meanRadius_of path" by (rule meanRadius_pos)
  have "meanRadius_of path \<le> R"
    using meanRadius_le_radius [OF ne assms(3)] assms(2) by simp
  with pos have "1 \<le> R / meanRadius_of path" by (simp add: pos_le_divide_eq)
  then have pen: "closingPenalty_of path = 25"
    by (simp add: closingPenalty_of_def assms(4))
  from assms(1) nz show ?thesis
    by (simp add: analyzeCircle_closed_form pen finalScore_of_def)
qed

lemma sqrt_4: "sqrt 4 = 2"
  by (rule real_sqrt_unique) simp_all

lemma on_circle_hexagon12: "on_circle (pt 0 0) 2 hexagon12"
  by (simp add: on_circle_def hexagon12_def distance_def sqrt_4)

lemma closing_hexagon12: "closingDistance_of hexagon12 = 2"
  by (simp add: closingDistance_of_def hexagon12_def distance_def sqrt_4)

lemma centroid_hexagon12: "centroid_of hexagon12 = pt 0 0"
  by (simp add: centroid_of_def mean_def hexagon12_def)

lemma radii_hexagon12: "radii_of hexagon12 = [2, 2, 2, 2, 2, 2, 2, 2, 2, 2, 2, 2]"
  by (simp add: radii_of_def centroid_hexagon12 distance_def) (simp add: hexagon12_def sqrt_4)

lemma meanRadius_hexagon12: "meanRadius_of hexagon12 = 2"
  by (simp add: meanRadius_of_def mean_def radii_hexagon12)

lemma shapeScore_hexagon12: "shapeScore_of hexagon12 = 100"
  by (simp add: shapeScore_of_def normalizedDeviation_of_def stdDev_of_def variance_of_def
      mean_def radii_hexagon12 meanRadius_hexagon12)

theorem gap_of_one_radius_witness:
  "\<exists>r. analyzeCircle hexagon12 = Inr (Some r) \<and> closingPenalty_of hexagon12 = 25
       \<and> score r = 75"
proof -
  have l: "10 \<le> length hexagon12" by (simp add: hexagon12_def)
  have R: "0 < (2::real)" by simp
  from gap_of_one_radius [OF l R on_circle_hexagon12 closing_hexagon12] show ?thesis
    by (simp add: shapeScore_hexagon12)
qed

lemma sqrt_1_25: "sqrt (1 / 25) = 1 / 5"
  by (rule real_sqrt_unique) (simp_all add: power2_eq_square)

lemma sqrt_81_25: "sqrt (81 / 25) = 9 / 5"
  by (rule real_sqrt_unique) (simp_all add: power2_eq_square)

lemma sqrt_144_625: "sqrt (144 / 625) = 12 / 25"
  by (rule real_sqrt_unique) (simp_all add: power2_eq_square)

lemma on_circle_dwell10: "on_circle (pt 0 0) 2 dwell10"
  by (simp add: on_circle_def dwell10_def distance_def sqrt_4)

lemma closing_dwell10: "closingDistance_of dwell10 = 2"
  by (simp add: closingDistance_of_def dwell10_def distance_def sqrt_4)

lemma centroid_dwell10: "centroid_of dwell10 = pt (19 / 10) (sqrt 3 / 10)"
  by (simp add: centroid_of_def mean_def dwell10_def)

lemma radius_dwell_a: "distance (pt 2 0) (pt (19 / 10) (sqrt 3 / 10)) = 1 / 5"
proof -
  have h: "(x (pt 2 0) - x (pt (19 / 10) (sqrt 3 / 10)))\<^sup>2
             + (y (pt 2 0) - y (pt (19 / 10) (sqrt 3 / 10)))\<^sup>2 = 1 / 25"
    by (simp add: power2_eq_square)
  show ?thesis unfolding distance_def h by (rule sqrt_1_25)
qed

lemma radius_dwell_b: "distance (pt 1 (sqrt 3)) (pt (19 / 10) (sqrt 3 / 10)) = 9 / 5"
proof -
  have "sqrt 3 - sqrt 3 / 10 = 9 / 10 * sqrt 3" by simp
  then have h: "(x (pt 1 (sqrt 3)) - x (pt (19 / 10) (sqrt 3 / 10)))\<^sup>2
             + (y (pt 1 (sqrt 3)) - y (pt (19 / 10) (sqrt 3 / 10)))\<^sup>2 = 81 / 25"
    by (simp add: power2_eq_square)
  show ?thesis unfolding distance_def h by (rule sqrt_81_25)
qed

lemma radii_dwell10:
  "radii_of dwell10 = [1 / 5, 1 / 5, 1 / 5, 1 / 5, 1 / 5, 1 / 5, 1 / 5, 1 / 5, 1 / 5, 9 / 5]"
  unfolding radii_of_def centroid_dwell10
  by (simp add: dwell10_def radius_dwell_a radius_dwell_b)

lemma meanRadius_dwell10: "meanRadius_of dwell10 = 9 / 25"
  by (simp add: meanRadius_of_def mean_def radii_dwell10)

lemma variance_dwell10: "variance_of dwell10 = 144 / 625"
  by (simp add: variance_of_def mean_def radii_dwell10 meanRadius_dwell10 power2_eq_square)

lemma shapeScore_dwell10: "shapeScore_of dwell10 = 0"
  by (simp add: shapeScore_of_def normalizedDeviation_of_def stdDev_of_def variance_dwell10
      meanRadius_dwell10 sqrt_144_625)

lemma closingPenalty_dwell10: "closingPenalty_of dwell10 = 25"
  by (simp add: closingPenalty_of_def closing_dwell10 meanRadius_dwell10)

lemma analyzeCircle_dwell10:
  "analyzeCircle dwell10 =
     Inr (Some \<lparr>score = 0, center = pt (19 / 10) (sqrt 3 / 10), radius = 9 / 25\<rparr>)"
  by (simp add: analyzeCircle_closed_form meanRadius_dwell10 finalScore_of_def
      shapeScore_dwell10 closingPenalty_dwell10 centroid_dwell10) (simp add: dwell10_def)

text \<open>
  Claim C8 as stated fails where the shape score is below 25: all points of
  \<^const>\<open>dwell10\<close> lie on the circle of radius 2 around the origin and its first and
  last point are at distance 2, its shape score is 0 and its final score is 0, not
  \<open>0 - 25\<close>.
\<close>

theorem gap_of_one_radius_counterexample:
  "10 \<le> length dwell10 \<and> on_circle (pt 0 0) 2 dwell10 \<and> closingDistance_of dwell10 = 2
   \<and> analyzeCircle dwell10 =
       Inr (Some \<lparr>score = 0, center = pt (19 / 10) (sqrt 3 / 10), radius = 9 / 25\<rparr>)
   \<and> shapeScore_of dwell10 - 25 = - 25"
  by (simp add: on_circle_dwell10 closing_dwell10 analyzeCircle_dwell10 shapeScore_dwell10)
    (simp add: dwell10_def)

section \<open>The interaction state machine\<close>

lemma run_snoc: "run (es @ [e]) = step (run es) e"
  by (simp add: run_def)

lemma run_tsx_snoc: "run_tsx (es @ [e]) = step_tsx (run_tsx es) e"
  by (simp add: run_tsx_def)

lemma analysisCallback_total:
  "analysisCallback cp s =
     s\<lparr>result := (if length cp < 10 \<or> meanRadius_of cp = 0 then None
                   else Some \<lparr>score = finalScore_of cp, center = centroid_of cp,
                              radius = meanRadius_of cp\<rparr>),
       appState := RESULT\<rparr>"
  by (simp add: analysisCallback_def analyzeCircle_closed_form)

lemma appState_analysisCallback: "appState (analysisCallback cp s) = RESULT"
  by (simp add: analysisCallback_total)

lemma step_drawing_listening:
  assumes "appState s = DRAWING \<longrightarrow> listening s"
  shows "appState (step s e) = DRAWING \<longrightarrow> listening (step s e)"
proof (cases e)
  case (GestureStart c)
  then show ?thesis by (simp add: handleStartDrawing_def Let_def)
next
  case (GestureMove c)
  with assms show ?thesis by (auto simp add: handleDrawing_def split: option.splits)
next
  case GestureEnd
  with assms show ?thesis by (auto simp add: handleEndDrawing_def Let_def)
next
  case TimeoutFires
  with assms show ?thesis
    by (auto simp add: fireTimeout_def appState_analysisCallback split: list.splits)
next
  case ResetClick
  with assms show ?thesis by (auto simp add: handleReset_def)
qed

lemma run_drawing_listening: "appState (run es) = DRAWING \<longrightarrow> listening (run es)"
proof (induction es rule: rev_induct)
  case Nil
  then show ?case by (simp add: run_def initial_def)
next
  case (snoc e es)
  then show ?case unfolding run_snoc by (rule step_drawing_listening)
qed

lemma run_short9_open:
  "run (butlast (gesture short9)) =
     \<lparr>points = short9, appState = DRAWING, result = None, timers = [],
      copyStatus = COPY_IDLE, listening = True\<rparr>"
  by (simp add: run_def gesture_def short9_def initial_def handleStartDrawing_def
      handleDrawing_def Let_def)

lemma run_tsx_short9_open:
  "run_tsx (butlast (gesture short9)) =
     \<lparr>points = short9, appState = DRAWING, result = None, timers = []\<rparr>"
  by (simp add: run_tsx_def gesture_def short9_def initial_tsx_def handleStartDrawing_tsx_def
      handleDrawing_tsx_def Let_def)

lemma gesture_short9_snoc: "gesture short9 = butlast (gesture short9) @ [GestureEnd]"
  by (simp add: gesture_def short9_def)

text \<open>
  Claim C7. A gesture-end event that arrives while the state is \<^verbatim>\<open>DRAWING\<close> and the
  path has fewer than 10 points leads to \<^verbatim>\<open>IDLE\<close> with an empty path and no result,
  and it schedules no analysis callback, so no score is computed. This holds for every
  state the component reaches from its initial state, in both versions of the component.
\<close>

theorem gesture_end_short_path:
  assumes "appState (run es) = DRAWING" and "length (points (run es)) < 10"
    and "appState (run_tsx es') = DRAWING" and "length (points (run_tsx es')) < 10"
  shows "appState (run (es @ [GestureEnd])) = IDLE
         \<and> points (run (es @ [GestureEnd])) = []
         \<and> result (run (es @ [GestureEnd])) = None
         \<and> timers (run (es @ [GestureEnd])) = timers (run es)
         \<and> appState (run_tsx (es' @ [GestureEnd])) = IDLE
         \<and> points (run_tsx (es' @ [GestureEnd])) = []
         \<and> result (run_tsx (es' @ [GestureEnd])) = None
         \<and> timers (run_tsx (es' @ [GestureEnd])) = timers (run_tsx es')"
proof -
  from assms(1) have "listening (run es)" using run_drawing_listening by blast
  with assms show ?thesis
    by (simp add: run_snoc run_tsx_snoc handleEndDrawing_def handleEndDrawing_tsx_def Let_def)
qed

theorem gesture_end_short_path_witness:
  "appState (run (gesture short9)) = IDLE \<and> points (run (gesture short9)) = []
   \<and> result (run (gesture short9)) = None \<and> timers (run (gesture short9)) = []
   \<and> appState (run_tsx (gesture short9)) = IDLE \<and> points (run_tsx (gesture short9)) = []
   \<and> result (run_tsx (gesture short9)) = None \<and> timers (run_tsx (gesture short9)) = []"
proof -
  have hs: "appState (run (butlast (gesture short9))) = DRAWING"
    "length (points (run (butlast (gesture short9)))) < 10"
    by (simp_all add: run_short9_open) (simp add: short9_def)
  have ht: "appState (run_tsx (butlast (gesture short9))) = DRAWING"
    "length (points (run_tsx (butlast (gesture short9)))) < 10"
    by (simp_all add: run_tsx_short9_open) (simp add: short9_def)
  have "timers (run (butlast (gesture short9))) = []"
    "timers (run_tsx (butlast (gesture short9))) = []"
    by (simp_all add: run_short9_open run_tsx_short9_open)
  with gesture_end_short_path [OF hs ht] show ?thesis
    by (simp add: gesture_short9_snoc [symmetric])
qed

text \<open>
  Claim C5, amended. A gesture-start event that arrives while the state is
  \<^verbatim>\<open>ANALYZING\<close> is not ignored. The start handler has no check of the state: the
  state becomes \<^verbatim>\<open>DRAWING\<close>, the path is replaced by the start point and the result
  is set to null. The pending callback and the path it captured stay as they are.
\<close>

theorem gesture_start_while_analyzing:
  assumes "appState (run es) = ANALYZING" and "appState (run_tsx es') = ANALYZING"
  shows "appState (run (es @ [GestureStart (Some c)])) = DRAWING
         \<and> points (run (es @ [GestureStart (Some c)])) = [c]
         \<and> result (run (es @ [GestureStart (Some c)])) = None
         \<and> timers (run (es @ [GestureStart (Some c)])) = timers (run es)
         \<and> appState (run_tsx (es' @ [GestureStart (Some c)])) = DRAWING
         \<and> points (run_tsx (es' @ [GestureStart (Some c)])) = [c]
         \<and> result (run_tsx (es' @ [GestureStart (Some c)])) = None
         \<and> timers (run_tsx (es' @ [GestureStart (Some c)])) = timers (run_tsx es')"
  by (simp add: run_snoc run_tsx_snoc handleStartDrawing_def handleStartDrawing_tsx_def Let_def)

theorem gesture_start_while_analyzing_witness:
  "appState (run (gesture circle14 @ [GestureStart (Some (pt 7 7))])) = DRAWING
   \<and> points (run (gesture circle14 @ [GestureStart (Some (pt 7 7))])) = [pt 7 7]
   \<and> timers (run (gesture circle14 @ [GestureStart (Some (pt 7 7))])) = [circle14]
   \<and> appState (run_tsx (gesture circle14 @ [GestureStart (Some (pt 7 7))])) = DRAWING
   \<and> points (run_tsx (gesture circle14 @ [GestureStart (Some (pt 7 7))])) = [pt 7 7]
   \<and> timers (run_tsx (gesture circle14 @ [GestureStart (Some (pt 7 7))])) = [circle14]"
proof -
  have a: "appState (run (gesture circle14)) = ANALYZING"
    and b: "appState (run_tsx (gesture circle14)) = ANALYZING"
    by (simp_all add: run_circle14 run_tsx_circle14)
  from gesture_start_while_analyzing [OF a b, of "pt 7 7"] show ?thesis
    by (simp add: run_circle14 run_tsx_circle14)
qed

text \<open>
  Claim C5 as stated fails: after a gesture along \<^const>\<open>circle14\<close> the state is
  \<^verbatim>\<open>ANALYZING\<close>, and a press at \<open>(7, 7)\<close> leaves it and replaces the path.
\<close>

theorem gesture_start_not_ignored_counterexample:
  "appState (run (gesture circle14)) = ANALYZING
   \<and> points (run (gesture circle14)) = circle14
   \<and> appState (step (run (gesture circle14)) (GestureStart (Some (pt 7 7)))) = DRAWING
   \<and> points (step (run (gesture circle14)) (GestureStart (Some (pt 7 7)))) = [pt 7 7]
   \<and> appState (run_tsx (gesture circle14)) = ANALYZING
   \<and> points (run_tsx (gesture circle14)) = circle14
   \<and> appState (step_tsx (run_tsx (gesture circle14)) (GestureStart (Some (pt 7 7)))) = DRAWING
   \<and> points (step_tsx (run_tsx (gesture circle14)) (GestureStart (Some (pt 7 7)))) = [pt 7 7]"
  by (simp add: run_circle14 run_tsx_circle14 handleStartDrawing_def
      handleStartDrawing_tsx_def Let_def)

text \<open>
  A gesture of exactly ten points, a start and nine moves, is not too short: it is
  analysed, also when all its points coincide and the analysis gives null.
\<close>

lemma meanRadius_dot10: "meanRadius_of dot10 = 0"
  unfolding meanRadius_zero_iff centroid_dot10 by (simp add: dot10_def)

lemma ten_point_gesture_is_analyzed:
  "appState (run (gesture dot10)) = ANALYZING
   \<and> timers (run (gesture dot10)) = [dot10]
   \<and> appState (run (gesture dot10 @ [TimeoutFires])) = RESULT
   \<and> result (run (gesture dot10 @ [TimeoutFires])) = None"
proof -
  have r: "run (gesture dot10) =
     \<lparr>points = dot10, appState = ANALYZING, result = None, timers = [dot10],
      copyStatus = COPY_IDLE, listening = False\<rparr>"
    by (simp add: run_def gesture_def dot10_def initial_def handleStartDrawing_def
        handleDrawing_def handleEndDrawing_def Let_def)
  show ?thesis
    unfolding run_snoc r
    by (simp add: fireTimeout_def analysisCallback_total meanRadius_dot10)
qed

lemma fireTimeout_Cons:
  "timers s = cp # rest \<Longrightarrow> fireTimeout s = analysisCallback cp (s\<lparr>timers := rest\<rparr>)"
  by (simp add: fireTimeout_def)

lemma analysisCallback_result: "analyzeCircle cp = Inr (result (analysisCallback cp s))"
  by (simp add: analysisCallback_total analyzeCircle_closed_form)

text \<open>
  Claim C6, amended. The deferred callback does not look at the current state. When it
  fires after \<^verbatim>\<open>handleReset\<close>, it sets the state to \<^verbatim>\<open>RESULT\<close> and the result to
  the analysis of the path captured at the end of the gesture; the path stays empty.
  The reset button exists only in state \<^verbatim>\<open>RESULT\<close>: in any other state, a reset
  click changes nothing.
\<close>

theorem callback_after_reset:
  assumes "timers s = cp # rest" and "timers t = cp' # rest'"
  shows "appState (fireTimeout (handleReset s)) = RESULT
         \<and> analyzeCircle cp = Inr (result (fireTimeout (handleReset s)))
         \<and> points (fireTimeout (handleReset s)) = []
         \<and> timers (fireTimeout (handleReset s)) = rest
         \<and> appState (fireTimeout (handleReset_tsx t)) = RESULT
         \<and> analyzeCircle cp' = Inr (result (fireTimeout (handleReset_tsx t)))
         \<and> points (fireTimeout (handleReset_tsx t)) = []
         \<and> timers (fireTimeout (handleReset_tsx t)) = rest'
         \<and> (if appState s = RESULT then step s ResetClick = handleReset s
              else step s ResetClick = s)
         \<and> (if appState t = RESULT then step_tsx t ResetClick = handleReset_tsx t
              else step_tsx t ResetClick = t)"
proof -
  have s: "timers (handleReset s) = cp # rest" and t: "timers (handleReset_tsx t) = cp' # rest'"
    using assms by (simp_all add: handleReset_def handleReset_tsx_def)
  show ?thesis
    unfolding fireTimeout_Cons [OF s] fireTimeout_Cons [OF t]
    by (simp add: appState_analysisCallback analysisCallback_result)
      (simp add: analysisCallback_total handleReset_def handleReset_tsx_def)
qed

theorem callback_after_reset_witness:
  "appState (fireTimeout (handleReset (run (gesture circle14)))) = RESULT
   \<and> result (fireTimeout (handleReset (run (gesture circle14))))
       = Some \<lparr>score = 100, center = pt 0 0, radius = 5\<rparr>
   \<and> appState (fireTimeout (handleReset_tsx (run_tsx (gesture circle14)))) = RESULT
   \<and> result (fireTimeout (handleReset_tsx (run_tsx (gesture circle14))))
       = Some \<lparr>score = 100, center = pt 0 0, radius = 5\<rparr>
   \<and> step (run (gesture circle14)) ResetClick = run (gesture circle14)
   \<and> step_tsx (run_tsx (gesture circle14)) ResetClick = run_tsx (gesture circle14)"
proof -
  have a: "timers (run (gesture circle14)) = circle14 # []"
    and b: "timers (run_tsx (gesture circle14)) = circle14 # []"
    by (simp_all add: run_circle14 run_tsx_circle14)
  have c: "appState (run (gesture circle14)) \<noteq> RESULT"
    "appState (run_tsx (gesture circle14)) \<noteq> RESULT"
    by (simp_all add: run_circle14 run_tsx_circle14)
  from callback_after_reset [OF a b] c show ?thesis
    by (auto simp add: analyzeCircle_circle14)
qed

lemma reset_with_pending_callback_trace:
  "appState (run (gesture circle14 @ gesture circle14 @ [TimeoutFires, ResetClick])) = IDLE
   \<and> result (run (gesture circle14 @ gesture circle14 @ [TimeoutFires, ResetClick])) = None
   \<and> appState (run (gesture circle14 @ gesture circle14 @ [TimeoutFires, ResetClick, TimeoutFires])) = RESULT"
  by (simp add: run_def gesture_def circle14_def initial_def handleStartDrawing_def
      handleDrawing_def handleEndDrawing_def Let_def fireTimeout_def analysisCallback_total handleReset_def)


text \<open>
  Claim C6 as stated fails: a reset applied in state \<^verbatim>\<open>ANALYZING\<close> gives
  \<^verbatim>\<open>IDLE\<close>, and the callback that fires afterwards gives \<^verbatim>\<open>RESULT\<close> with a
  score. The same happens on a trace of events: two gestures, the first callback,
  a reset click, the second callback.
\<close>

theorem callback_after_reset_counterexample:
  "appState (run (gesture circle14)) = ANALYZING
   \<and> appState (handleReset (run (gesture circle14))) = IDLE
   \<and> appState (fireTimeout (handleReset (run (gesture circle14)))) = RESULT
   \<and> result (fireTimeout (handleReset (run (gesture circle14))))
       = Some \<lparr>score = 100, center = pt 0 0, radius = 5\<rparr>
   \<and> appState (run_tsx (gesture circle14)) = ANALYZING
   \<and> appState (handleReset_tsx (run_tsx (gesture circle14))) = IDLE
   \<and> appState (fireTimeout (handleReset_tsx (run_tsx (gesture circle14)))) = RESULT
   \<and> result (fireTimeout (handleReset_tsx (run_tsx (gesture circle14))))
       = Some \<lparr>score = 100, center = pt 0 0, radius = 5\<rparr>
   \<and> appState (run (gesture circle14 @ gesture circle14 @ [TimeoutFires, ResetClick])) = IDLE
   \<and> appState (run (gesture circle14 @ gesture circle14
                        @ [TimeoutFires, ResetClick, TimeoutFires])) = RESULT"
  using reset_with_pending_callback_trace
  by (simp add: run_circle14 run_tsx_circle14 handleReset_def handleReset_tsx_def
      fireTimeout_def analysisCallback_def analyzeCircle_circle14)

end
